theory Spec2Isabelle
  imports Main
begin

section \<open>The OpenRouter provider factory (src/openrouter-provider.ts)\<close>

text \<open>
  The module exports one factory, \<^verbatim>\<open>createOpenRouter\<close>, and one ready-made instance,
  \<^verbatim>\<open>openrouter\<close>. The factory resolves a base URL and a compatibility mode, and returns a
  callable object with three named operations. Each operation hands a model id, a settings
  object and a runtime configuration to one of two model classes that live in other modules.
  Everything the factory does is embedded below, one definition per function or closure of
  the source, with the variables a closure captures passed as leading arguments.
\<close>

subsection \<open>Values\<close>

text \<open>
  Exceptions are values. \<open>Error\<close> is the host language's generic error with its message
  (line 147). \<open>TypeError\<close> is what the language raises when \<^verbatim>\<open>new\<close> is applied to a value
  that is not a constructor. \<open>MissingCredentialError\<close> is raised by the key loader and
  carries the description the caller passed.
\<close>

datatype error =
    MissingCredentialError string
  | Error string
  | TypeError

text \<open>How a function value is invoked: \<^verbatim>\<open>f(...)\<close> or \<^verbatim>\<open>new f(...)\<close>.\<close>

datatype invocation = Call | Construct

text \<open>
  A property of the header object holds a string or the value \<^verbatim>\<open>undefined\<close>. A property
  whose value is \<^verbatim>\<open>undefined\<close> is still a property of the object: the key is in the domain
  of the map.
\<close>

datatype header_value = Undefined | Str string

type_synonym header_record = "string \<rightharpoonup> header_value"

text \<open>The process environment: variable names to values.\<close>

type_synonym environment = "string \<rightharpoonup> string"

text \<open>
  The per-model settings types are declared in other modules. The factory only passes the
  object on, or replaces a missing one by the empty object \<^verbatim>\<open>{}\<close>: an object is a map from
  property names to values of a type the factory never inspects.
\<close>

type_synonym 'v settings_object = "string \<rightharpoonup> 'v"

datatype compatibility_mode = Strict | Compatible

text \<open>\<^verbatim>\<open>OpenRouterProviderSettings\<close> (lines 49-92). Every field is optional.\<close>

record 'f OpenRouterProviderSettings =
  baseURL :: "string option"
  baseUrl :: "string option"
  apiKey :: "string option"
  organization :: "string option"
  project :: "string option"
  headers :: "(string \<rightharpoonup> string) option"
  compatibility :: "compatibility_mode option"
  fetch :: "'f option"

text \<open>
  The third argument of both model constructors (lines 122-128 and 134-140). The fields
  \<^verbatim>\<open>headers\<close>, \<^verbatim>\<open>compatibility\<close> and \<^verbatim>\<open>fetch\<close> carry a suffix here, since the settings
  record already has fields of these names. \<open>headers_fn\<close> is the closure \<^verbatim>\<open>getHeaders\<close>: it
  reads the environment when it is called, not when the model is made.
\<close>

record 'f runtimeConfig =
  provider :: string
  url :: "string \<Rightarrow> string"
  headers_fn :: "environment \<Rightarrow> error + header_record"
  compatibility_cfg :: compatibility_mode
  fetch_cfg :: "'f option"

text \<open>
  The two model classes are imported from other modules. The factory only constructs them;
  an instance is the record of the three constructor arguments, tagged with its class.
\<close>

datatype ('v, 'f) language_model =
    OpenRouterChatLanguageModel
      (model_id: string) (model_settings: "'v settings_object") (model_config: "'f runtimeConfig")
  | OpenRouterCompletionLanguageModel
      (model_id: string) (model_settings: "'v settings_object") (model_config: "'f runtimeConfig")

text \<open>
  The interface \<^verbatim>\<open>OpenRouterProvider\<close> (lines 13-47): the callable form and the three named
  operations. Each is a function value, so each can be the operand of a plain call or of
  \<^verbatim>\<open>new\<close>.
\<close>

record ('v, 'f) OpenRouterProvider =
  call :: "invocation \<Rightarrow> string \<Rightarrow> 'v settings_object option \<Rightarrow> error + ('v, 'f) language_model"
  languageModel :: "invocation \<Rightarrow> string \<Rightarrow> 'v settings_object option \<Rightarrow> error + ('v, 'f) language_model"
  chat :: "invocation \<Rightarrow> string \<Rightarrow> 'v settings_object option \<Rightarrow> error + ('v, 'f) language_model"
  completion :: "invocation \<Rightarrow> string \<Rightarrow> 'v settings_object option \<Rightarrow> error + ('v, 'f) language_model"

subsection \<open>Invocation of function values\<close>

text \<open>
  A \<^verbatim>\<open>function\<close> expression can be called and constructed. \<^verbatim>\<open>new f(...)\<close> runs the body of
  \<^verbatim>\<open>f\<close>; when the body returns an object, that object is the value of the \<^verbatim>\<open>new\<close>
  expression, and when it throws, the exception propagates. The one \<^verbatim>\<open>function\<close> expression
  of the module (lines 162-167) returns a model instance or throws, so both invocations give
  the result of the body.
\<close>

definition function_expression ::
  "(string \<Rightarrow> 's \<Rightarrow> error + 'm) \<Rightarrow> invocation \<Rightarrow> string \<Rightarrow> 's \<Rightarrow> error + 'm" where
  "function_expression body how mid st =
     (case how of Call \<Rightarrow> body mid st | Construct \<Rightarrow> body mid st)"

text \<open>
  An arrow function is not a constructor: \<^verbatim>\<open>new\<close> applied to it raises a TypeError and
  the body does not run.
\<close>

definition arrow_function ::
  "(string \<Rightarrow> 's \<Rightarrow> error + 'm) \<Rightarrow> invocation \<Rightarrow> string \<Rightarrow> 's \<Rightarrow> error + 'm" where
  "arrow_function body how mid st =
     (case how of Call \<Rightarrow> body mid st | Construct \<Rightarrow> Inl TypeError)"

subsection \<open>Imported helpers\<close>

text \<open>
  Modelled from the spec: \<^verbatim>\<open>loadApiKey\<close> is imported from the package
  \<^verbatim>\<open>@ai-sdk/provider-utils\<close> (line 1) and its body is not part of the sources. The spec
  (section 4.1) says: use \<^verbatim>\<open>settings.apiKey\<close> if present; otherwise read a fixed environment
  variable name; fail with MissingCredentialError if neither is available, including a
  human-readable description identifying the provider by name.
\<close>

definition loadApiKey :: "string option \<Rightarrow> string \<Rightarrow> string \<Rightarrow> environment \<Rightarrow> error + string" where
  "loadApiKey key environmentVariableName description env =
     (case key of
        Some k \<Rightarrow> Inr k
      | None \<Rightarrow>
          (case env environmentVariableName of
             Some k \<Rightarrow> Inr k
           | None \<Rightarrow> Inl (MissingCredentialError description)))"

text \<open>
  Modelled from the spec: \<^verbatim>\<open>withoutTrailingSlash\<close> is imported from the package
  \<^verbatim>\<open>@ai-sdk/provider-utils\<close> (line 1) and its body is not part of the sources. The spec
  says of the base URL that it is normalized by stripping a trailing path separator if
  present (section 3), and calls the helper a trailing-slash-stripping string utility
  (section 6): a string that ends in a slash loses that one slash, any other string is
  returned as it is. A missing value stays missing: the caller supplies the default with
  \<^verbatim>\<open>??\<close>.
\<close>

definition withoutTrailingSlash :: "string option \<Rightarrow> string option" where
  "withoutTrailingSlash u =
     map_option (\<lambda>s. if s \<noteq> [] \<and> last s = CHR ''/'' then butlast s else s) u"

subsection \<open>The closures of the factory\<close>

text \<open>Line 100-102: \<^verbatim>\<open>a ?? b\<close> is \<^verbatim>\<open>b\<close> exactly when \<^verbatim>\<open>a\<close> is missing.\<close>

definition baseURL_resolved :: "'f OpenRouterProviderSettings \<Rightarrow> string" where
  "baseURL_resolved options =
     (case withoutTrailingSlash
             (case baseURL options of Some u \<Rightarrow> Some u | None \<Rightarrow> baseUrl options) of
        Some u \<Rightarrow> u
      | None \<Rightarrow> ''https://openrouter.ai/api/v1'')"

text \<open>Line 105.\<close>

definition compatibility_resolved :: "'f OpenRouterProviderSettings \<Rightarrow> compatibility_mode" where
  "compatibility_resolved options =
     (case compatibility options of Some c \<Rightarrow> c | None \<Rightarrow> Compatible)"

text \<open>
  An optional string as the value of a property of an object literal: the property is
  created either way, with the value \<^verbatim>\<open>undefined\<close> when the string is missing.
\<close>

definition property_value :: "string option \<Rightarrow> header_value" where
  "property_value x = (case x of Some s \<Rightarrow> Str s | None \<Rightarrow> Undefined)"

text \<open>
  The spread \<^verbatim>\<open>...h\<close> at the end of an object literal: every property of \<^verbatim>\<open>h\<close> is
  written into the object, replacing a property of the same name. Spreading a missing
  object writes nothing.
\<close>

definition spread :: "(string \<rightharpoonup> string) option \<Rightarrow> header_record \<Rightarrow> header_record" where
  "spread h obj =
     (case h of
        None \<Rightarrow> obj
      | Some extra \<Rightarrow> obj ++ (\<lambda>k. map_option Str (extra k)))"

text \<open>
  \<^verbatim>\<open>getHeaders\<close> (lines 107-116). The template literal calls the key loader first, so a
  failure of the loader is the failure of the whole computation.
\<close>

definition getHeaders :: "'f OpenRouterProviderSettings \<Rightarrow> environment \<Rightarrow> error + header_record" where
  "getHeaders options env =
     (case loadApiKey (apiKey options) ''OPENAI_API_KEY'' ''OpenRouter'' env of
        Inl e \<Rightarrow> Inl e
      | Inr key \<Rightarrow>
          Inr (spread (headers options)
                 [''Authorization'' \<mapsto> Str (''Bearer '' @ key),
                  ''OpenRouter-Organization'' \<mapsto> property_value (organization options),
                  ''OpenRouter-Project'' \<mapsto> property_value (project options)]))"

text \<open>
  \<^verbatim>\<open>createChatModel\<close> (lines 118-128) and \<^verbatim>\<open>createCompletionModel\<close> (lines 130-140). The
  arguments \<open>options\<close>, \<open>base\<close> and \<open>mode\<close> are the captured \<^verbatim>\<open>options\<close>, \<^verbatim>\<open>baseURL\<close>
  and \<^verbatim>\<open>compatibility\<close>. A missing settings argument defaults to the empty object.
\<close>

definition createChatModel ::
  "'f OpenRouterProviderSettings \<Rightarrow> string \<Rightarrow> compatibility_mode \<Rightarrow>
   string \<Rightarrow> 'v settings_object option \<Rightarrow> ('v, 'f) language_model" where
  "createChatModel options base mode mid st =
     OpenRouterChatLanguageModel mid
       (case st of Some s \<Rightarrow> s | None \<Rightarrow> Map.empty)
       \<lparr>provider = ''openrouter.chat'',
        url = (\<lambda>path. base @ path),
        headers_fn = getHeaders options,
        compatibility_cfg = mode,
        fetch_cfg = fetch options\<rparr>"

definition createCompletionModel ::
  "'f OpenRouterProviderSettings \<Rightarrow> string \<Rightarrow> compatibility_mode \<Rightarrow>
   string \<Rightarrow> 'v settings_object option \<Rightarrow> ('v, 'f) language_model" where
  "createCompletionModel options base mode mid st =
     OpenRouterCompletionLanguageModel mid
       (case st of Some s \<Rightarrow> s | None \<Rightarrow> Map.empty)
       \<lparr>provider = ''openrouter.completion'',
        url = (\<lambda>path. base @ path),
        headers_fn = getHeaders options,
        compatibility_cfg = mode,
        fetch_cfg = fetch options\<rparr>"

text \<open>
  \<^verbatim>\<open>createLanguageModel\<close> (lines 142-160). It is an arrow function, and an arrow function
  has no \<^verbatim>\<open>new.target\<close> of its own: the expression on line 146 reads the \<^verbatim>\<open>new.target\<close> of
  the enclosing function \<^verbatim>\<open>createOpenRouter\<close>. The argument \<open>factory_invocation\<close> is how
  \<^verbatim>\<open>createOpenRouter\<close> was invoked; \<^verbatim>\<open>new.target\<close> is set exactly when that was with
  \<^verbatim>\<open>new\<close>. The comparison on line 152 is \<^verbatim>\<open>===\<close> against a string literal.
\<close>

definition createLanguageModel ::
  "invocation \<Rightarrow> 'f OpenRouterProviderSettings \<Rightarrow> string \<Rightarrow> compatibility_mode \<Rightarrow>
   string \<Rightarrow> 'v settings_object option \<Rightarrow> error + ('v, 'f) language_model" where
  "createLanguageModel factory_invocation options base mode mid st =
     (if factory_invocation = Construct then
        Inl (Error ''The OpenRouter model function cannot be called with the new keyword.'')
      else if mid = ''openai/gpt-3.5-turbo-instruct'' then
        Inr (createCompletionModel options base mode mid st)
      else
        Inr (createChatModel options base mode mid st))"

text \<open>The default of the parameter \<^verbatim>\<open>options\<close> (line 98): the empty object.\<close>

definition empty_options :: "'f OpenRouterProviderSettings" where
  "empty_options =
     \<lparr>baseURL = None, baseUrl = None, apiKey = None, organization = None, project = None,
      headers = None, compatibility = None, fetch = None\<rparr>"

text \<open>
  \<^verbatim>\<open>createOpenRouter\<close> (lines 97-174). It is a \<^verbatim>\<open>function\<close> declaration that returns an
  object, so \<^verbatim>\<open>new createOpenRouter(...)\<close> evaluates to the provider as well; the first
  argument records which of the two happened. \<^verbatim>\<open>provider\<close> (lines 162-167) is a
  \<^verbatim>\<open>function\<close> expression whose body forwards to \<^verbatim>\<open>createLanguageModel\<close>; the three named
  operations (lines 169-171) are the arrow functions themselves.
\<close>

definition createOpenRouter ::
  "invocation \<Rightarrow> 'f OpenRouterProviderSettings option \<Rightarrow> ('v, 'f) OpenRouterProvider" where
  "createOpenRouter factory_invocation arg =
     (let options = (case arg of Some s \<Rightarrow> s | None \<Rightarrow> empty_options);
          base = baseURL_resolved options;
          mode = compatibility_resolved options
      in \<lparr>call =
            function_expression (createLanguageModel factory_invocation options base mode),
          languageModel =
            arrow_function (createLanguageModel factory_invocation options base mode),
          chat =
            arrow_function (\<lambda>mid st. Inr (createChatModel options base mode mid st)),
          completion =
            arrow_function (\<lambda>mid st. Inr (createCompletionModel options base mode mid st))\<rparr>)"

text \<open>The exported default instance (lines 179-181), made by a plain call at module load.\<close>

definition openrouter :: "('v, 'f) OpenRouterProvider" where
  "openrouter = createOpenRouter Call (Some (empty_options\<lparr>compatibility := Some Strict\<rparr>))"

section \<open>Facts shared by the proofs\<close>

lemmas provider_defs =
  createOpenRouter_def Let_def function_expression_def arrow_function_def
  createLanguageModel_def createChatModel_def createCompletionModel_def

text \<open>
  The guard of line 146 fires exactly for a provider whose factory was invoked with
  \<^verbatim>\<open>new\<close>: then every dispatching call fails, however it is made.
\<close>

lemma guard_follows_factory_invocation:
  "call (createOpenRouter Construct arg) how mid st =
     Inl (Error ''The OpenRouter model function cannot be called with the new keyword.'')"
  "languageModel (createOpenRouter Construct arg) Call mid st =
     Inl (Error ''The OpenRouter model function cannot be called with the new keyword.'')"
  by (cases how; simp add: provider_defs)+

lemma getHeaders_with_key:
  "apiKey options = Some k \<Longrightarrow>
   getHeaders options env =
     Inr (spread (headers options)
            [''Authorization'' \<mapsto> Str (''Bearer '' @ k),
             ''OpenRouter-Organization'' \<mapsto> property_value (organization options),
             ''OpenRouter-Project'' \<mapsto> property_value (project options)])"
  by (simp add: getHeaders_def loadApiKey_def)

lemma getHeaders_from_environment:
  "apiKey options = None \<Longrightarrow> env ''OPENAI_API_KEY'' = Some k \<Longrightarrow>
   getHeaders options env =
     Inr (spread (headers options)
            [''Authorization'' \<mapsto> Str (''Bearer '' @ k),
             ''OpenRouter-Organization'' \<mapsto> property_value (organization options),
             ''OpenRouter-Project'' \<mapsto> property_value (project options)])"
  by (simp add: getHeaders_def loadApiKey_def)

lemma getHeaders_without_key:
  "apiKey options = None \<Longrightarrow> env ''OPENAI_API_KEY'' = None \<Longrightarrow>
   getHeaders options env = Inl (MissingCredentialError ''OpenRouter'')"
  by (simp add: getHeaders_def loadApiKey_def)

lemma spread_keeps:
  "(case extra of None \<Rightarrow> None | Some e \<Rightarrow> e k) = None \<Longrightarrow> spread extra obj k = obj k"
  by (simp add: spread_def map_add_def split: option.splits)

lemma spread_overrides:
  "extra = Some e \<Longrightarrow> e k = Some v \<Longrightarrow> spread extra obj k = Some (Str v)"
  by (simp add: spread_def map_add_def)

section \<open>Dispatch\<close>

text \<open>
  C1. For every model id and every optional settings argument, a provider made by a plain
  call of the factory, called as a plain function or through \<^verbatim>\<open>languageModel\<close>, returns a
  Completion model exactly when the model id is the string
  \<^verbatim>\<open>openai/gpt-3.5-turbo-instruct\<close>, and a Chat model exactly when it is any other string.
  The comparison is equality of strings: no case folding, no trimming.
\<close>

theorem dispatch_on_legacy_id:
  "((\<exists>s cfg. call (createOpenRouter Call arg) Call mid st =
        Inr (OpenRouterCompletionLanguageModel mid s cfg))
      = (mid = ''openai/gpt-3.5-turbo-instruct''))
   \<and> ((\<exists>s cfg. call (createOpenRouter Call arg) Call mid st =
        Inr (OpenRouterChatLanguageModel mid s cfg))
      = (mid \<noteq> ''openai/gpt-3.5-turbo-instruct''))
   \<and> ((\<exists>s cfg. languageModel (createOpenRouter Call arg) Call mid st =
        Inr (OpenRouterCompletionLanguageModel mid s cfg))
      = (mid = ''openai/gpt-3.5-turbo-instruct''))
   \<and> ((\<exists>s cfg. languageModel (createOpenRouter Call arg) Call mid st =
        Inr (OpenRouterChatLanguageModel mid s cfg))
      = (mid \<noteq> ''openai/gpt-3.5-turbo-instruct''))"
  by (simp add: provider_defs)

text \<open>
  The theorem at the legacy id, at the same id in another case, and at the id followed by
  a blank.
\<close>

theorem dispatch_on_legacy_id_witness:
  "(\<exists>s cfg. call (createOpenRouter Call (None :: unit OpenRouterProviderSettings option)) Call
       ''openai/gpt-3.5-turbo-instruct'' (None :: unit settings_object option) =
     Inr (OpenRouterCompletionLanguageModel ''openai/gpt-3.5-turbo-instruct'' s cfg))
   \<and> (\<exists>s cfg. call (createOpenRouter Call (None :: unit OpenRouterProviderSettings option)) Call
       ''OpenAI/GPT-3.5-Turbo-Instruct'' (None :: unit settings_object option) =
     Inr (OpenRouterChatLanguageModel ''OpenAI/GPT-3.5-Turbo-Instruct'' s cfg))
   \<and> (\<exists>s cfg. languageModel (createOpenRouter Call (None :: unit OpenRouterProviderSettings option)) Call
       ''openai/gpt-3.5-turbo-instruct '' (None :: unit settings_object option) =
     Inr (OpenRouterChatLanguageModel ''openai/gpt-3.5-turbo-instruct '' s cfg))"
  using
    dispatch_on_legacy_id [of "None :: unit OpenRouterProviderSettings option"
       "''openai/gpt-3.5-turbo-instruct''" "None :: unit settings_object option"]
    dispatch_on_legacy_id [of "None :: unit OpenRouterProviderSettings option"
       "''OpenAI/GPT-3.5-Turbo-Instruct''" "None :: unit settings_object option"]
    dispatch_on_legacy_id [of "None :: unit OpenRouterProviderSettings option"
       "''openai/gpt-3.5-turbo-instruct ''" "None :: unit settings_object option"]
  by simp

text \<open>
  C2. The claim: a construction-style call of the provider fails with the error of line
  147, whatever the arguments, and so does a construction-style call of
  \<^verbatim>\<open>languageModel\<close>. The code: after a plain call of the factory,
  \<^verbatim>\<open>new provider("foo/bar")\<close> returns a Chat model, since the guard reads the
  \<^verbatim>\<open>new.target\<close> of the factory and not that of the provider; for every model id and
  settings the construction-style call returns what the plain call returns. A
  construction-style call of \<^verbatim>\<open>languageModel\<close> fails before the guard is reached, with the
  TypeError of constructing an arrow function.
\<close>

theorem construct_call_returns_model:
  "call (createOpenRouter Call (None :: unit OpenRouterProviderSettings option)) Construct
     ''foo/bar'' (None :: unit settings_object option) =
   Inr (OpenRouterChatLanguageModel ''foo/bar'' Map.empty
     \<lparr>provider = ''openrouter.chat'',
      url = (\<lambda>path. ''https://openrouter.ai/api/v1'' @ path),
      headers_fn = getHeaders (empty_options :: unit OpenRouterProviderSettings),
      compatibility_cfg = Compatible,
      fetch_cfg = None\<rparr>)
   \<and> call (createOpenRouter Call arg) Construct mid st = call (createOpenRouter Call arg) Call mid st
   \<and> call (createOpenRouter Call arg) Construct mid st \<noteq>
       Inl (Error ''The OpenRouter model function cannot be called with the new keyword.'')
   \<and> languageModel (createOpenRouter Call arg) Construct mid st = Inl TypeError"
  by (simp add: provider_defs baseURL_resolved_def compatibility_resolved_def
        empty_options_def withoutTrailingSlash_def)

text \<open>
  C6. For every model id, the legacy completion id included, \<^verbatim>\<open>chat\<close> constructs a Chat
  model and \<^verbatim>\<open>completion\<close> constructs a Completion model, each with the id it was given,
  the settings it was given (the empty object when none) and a configuration that does not
  depend on the id.
\<close>

theorem chat_and_completion_fixed_family:
  "(\<exists>cfg. \<forall>mid st. chat (createOpenRouter how arg) Call mid st =
       Inr (OpenRouterChatLanguageModel mid (case st of Some s \<Rightarrow> s | None \<Rightarrow> Map.empty) cfg))
   \<and> (\<exists>cfg. \<forall>mid st. completion (createOpenRouter how arg) Call mid st =
       Inr (OpenRouterCompletionLanguageModel mid (case st of Some s \<Rightarrow> s | None \<Rightarrow> Map.empty) cfg))"
  by (simp add: provider_defs)

text \<open>
  C8. For every model id and settings, the provider called as a plain function and the
  operation \<^verbatim>\<open>languageModel\<close> both return a model handle, and the two handles are equal:
  both run \<^verbatim>\<open>createLanguageModel\<close> on the same arguments. The handle is the Completion
  model for the legacy id and the Chat model for every other id. The provider is one made by
  a plain call of the factory.
\<close>

theorem call_eq_languageModel:
  "(\<exists>m. call (createOpenRouter Call arg) Call mid st = Inr m
       \<and> languageModel (createOpenRouter Call arg) Call mid st = Inr m
       \<and> model_id m = mid
       \<and> model_settings m = (case st of Some s \<Rightarrow> s | None \<Rightarrow> Map.empty))
   \<and> call (createOpenRouter Call arg) Call mid st =
       Inr (if mid = ''openai/gpt-3.5-turbo-instruct''
            then createCompletionModel
                   (case arg of Some s \<Rightarrow> s | None \<Rightarrow> empty_options)
                   (baseURL_resolved (case arg of Some s \<Rightarrow> s | None \<Rightarrow> empty_options))
                   (compatibility_resolved (case arg of Some s \<Rightarrow> s | None \<Rightarrow> empty_options))
                   mid st
            else createChatModel
                   (case arg of Some s \<Rightarrow> s | None \<Rightarrow> empty_options)
                   (baseURL_resolved (case arg of Some s \<Rightarrow> s | None \<Rightarrow> empty_options))
                   (compatibility_resolved (case arg of Some s \<Rightarrow> s | None \<Rightarrow> empty_options))
                   mid st)
   \<and> languageModel (createOpenRouter Call arg) Call mid st =
       call (createOpenRouter Call arg) Call mid st"
  by (simp add: provider_defs)

section \<open>Captured configuration\<close>

text \<open>
  C5, amended. The base URL of a provider is \<^verbatim>\<open>options.baseURL\<close> when that is given, the
  deprecated \<^verbatim>\<open>options.baseUrl\<close> when only that is given, each passed through the
  slash-stripping helper, and the fixed endpoint \<^verbatim>\<open>https://openrouter.ai/api/v1\<close>, which
  does not end in a slash, when neither is given. The helper removes one final slash from a
  value that ends in a slash and leaves every other value as it is; on a result that no
  longer ends in a slash a second application changes nothing. The models of the provider
  build their URLs from this base.
\<close>

theorem baseURL_resolution:
  "(baseURL options = Some u \<longrightarrow>
      Some (baseURL_resolved options) = withoutTrailingSlash (Some u))
   \<and> (baseURL options = None \<and> baseUrl options = Some u \<longrightarrow>
      Some (baseURL_resolved options) = withoutTrailingSlash (Some u))
   \<and> (baseURL options = None \<and> baseUrl options = None \<longrightarrow>
      baseURL_resolved options = ''https://openrouter.ai/api/v1'' \<and>
      last (baseURL_resolved options) \<noteq> CHR ''/'')
   \<and> (u \<noteq> [] \<and> last u = CHR ''/'' \<longrightarrow>
      (\<exists>r. withoutTrailingSlash (Some u) = Some r \<and> u = r @ ''/''))
   \<and> (u = [] \<or> last u \<noteq> CHR ''/'' \<longrightarrow> withoutTrailingSlash (Some u) = Some u)
   \<and> (withoutTrailingSlash (Some u) = Some r \<and> (r = [] \<or> last r \<noteq> CHR ''/'') \<longrightarrow>
      withoutTrailingSlash (withoutTrailingSlash (Some u)) = withoutTrailingSlash (Some u))
   \<and> (\<exists>cfg. \<forall>mid st. chat (createOpenRouter how (Some options)) Call mid st =
          Inr (OpenRouterChatLanguageModel mid (case st of Some s \<Rightarrow> s | None \<Rightarrow> Map.empty) cfg)
        \<and> (\<forall>path. url cfg path = baseURL_resolved options @ path))
   \<and> (\<exists>cfg. \<forall>mid st. completion (createOpenRouter how (Some options)) Call mid st =
          Inr (OpenRouterCompletionLanguageModel mid (case st of Some s \<Rightarrow> s | None \<Rightarrow> Map.empty) cfg)
        \<and> (\<forall>path. url cfg path = baseURL_resolved options @ path))"
proof -
  have pref: "baseURL options = Some u \<longrightarrow>
      Some (baseURL_resolved options) = withoutTrailingSlash (Some u)"
    by (simp add: baseURL_resolved_def withoutTrailingSlash_def)
  have legacy: "baseURL options = None \<and> baseUrl options = Some u \<longrightarrow>
      Some (baseURL_resolved options) = withoutTrailingSlash (Some u)"
    by (simp add: baseURL_resolved_def withoutTrailingSlash_def)
  have dflt: "baseURL options = None \<and> baseUrl options = None \<longrightarrow>
      baseURL_resolved options = ''https://openrouter.ai/api/v1'' \<and>
      last (baseURL_resolved options) \<noteq> CHR ''/''"
    by (simp add: baseURL_resolved_def withoutTrailingSlash_def)
  have one: "u \<noteq> [] \<and> last u = CHR ''/'' \<longrightarrow>
      (\<exists>r. withoutTrailingSlash (Some u) = Some r \<and> u = r @ ''/'')"
  proof
    assume a: "u \<noteq> [] \<and> last u = CHR ''/''"
    then have ne: "u \<noteq> []" and l: "last u = CHR ''/''"
      by simp_all
    from ne have "butlast u @ [last u] = u"
      by (rule append_butlast_last_id)
    then have "u = butlast u @ ''/''"
      unfolding l by (rule sym)
    moreover from a have "withoutTrailingSlash (Some u) = Some (butlast u)"
      by (simp add: withoutTrailingSlash_def)
    ultimately show "\<exists>r. withoutTrailingSlash (Some u) = Some r \<and> u = r @ ''/''"
      by blast
  qed
  have none: "u = [] \<or> last u \<noteq> CHR ''/'' \<longrightarrow> withoutTrailingSlash (Some u) = Some u"
    by (auto simp add: withoutTrailingSlash_def)
  have again: "withoutTrailingSlash (Some u) = Some r \<and> (r = [] \<or> last r \<noteq> CHR ''/'') \<longrightarrow>
      withoutTrailingSlash (withoutTrailingSlash (Some u)) = withoutTrailingSlash (Some u)"
  proof
    assume a: "withoutTrailingSlash (Some u) = Some r \<and> (r = [] \<or> last r \<noteq> CHR ''/'')"
    then have "withoutTrailingSlash (Some r) = Some r"
      by (auto simp add: withoutTrailingSlash_def)
    with a show "withoutTrailingSlash (withoutTrailingSlash (Some u)) = withoutTrailingSlash (Some u)"
      by simp
  qed
  have chat_url: "\<exists>cfg. \<forall>mid st. chat (createOpenRouter how (Some options)) Call mid st =
          Inr (OpenRouterChatLanguageModel mid (case st of Some s \<Rightarrow> s | None \<Rightarrow> Map.empty) cfg)
        \<and> (\<forall>path. url cfg path = baseURL_resolved options @ path)"
    by (simp add: provider_defs)
  have completion_url: "\<exists>cfg. \<forall>mid st. completion (createOpenRouter how (Some options)) Call mid st =
          Inr (OpenRouterCompletionLanguageModel mid (case st of Some s \<Rightarrow> s | None \<Rightarrow> Map.empty) cfg)
        \<and> (\<forall>path. url cfg path = baseURL_resolved options @ path)"
    by (simp add: provider_defs)
  from pref legacy dflt one none again chat_url completion_url show ?thesis
    by (intro conjI)
qed

text \<open>
  The theorem at a base URL with one final slash set beside a legacy alias, at a legacy
  alias alone, at the empty settings, and at a base URL with no final slash.
\<close>

theorem baseURL_resolution_witness:
  "baseURL ((empty_options :: unit OpenRouterProviderSettings)
      \<lparr>baseURL := Some ''https://x.test/v1/'', baseUrl := Some ''https://legacy.test/''\<rparr>) =
     Some ''https://x.test/v1/''
   \<and> baseURL_resolved ((empty_options :: unit OpenRouterProviderSettings)
      \<lparr>baseURL := Some ''https://x.test/v1/'', baseUrl := Some ''https://legacy.test/''\<rparr>) =
     ''https://x.test/v1''
   \<and> baseURL ((empty_options :: unit OpenRouterProviderSettings)
      \<lparr>baseUrl := Some ''https://legacy.test/''\<rparr>) = None
   \<and> baseUrl ((empty_options :: unit OpenRouterProviderSettings)
      \<lparr>baseUrl := Some ''https://legacy.test/''\<rparr>) = Some ''https://legacy.test/''
   \<and> baseURL_resolved ((empty_options :: unit OpenRouterProviderSettings)
      \<lparr>baseUrl := Some ''https://legacy.test/''\<rparr>) = ''https://legacy.test''
   \<and> baseURL (empty_options :: unit OpenRouterProviderSettings) = None
   \<and> baseUrl (empty_options :: unit OpenRouterProviderSettings) = None
   \<and> baseURL_resolved (empty_options :: unit OpenRouterProviderSettings) =
       ''https://openrouter.ai/api/v1''
   \<and> ''https://x.test/v1/'' \<noteq> []
   \<and> last ''https://x.test/v1/'' = CHR ''/''
   \<and> withoutTrailingSlash (Some ''https://x.test/v1/'') = Some ''https://x.test/v1''
   \<and> last ''https://x.test/v1'' \<noteq> CHR ''/''
   \<and> withoutTrailingSlash (Some ''https://x.test/v1'') = Some ''https://x.test/v1''
   \<and> withoutTrailingSlash (withoutTrailingSlash (Some ''https://x.test/v1/'')) =
       withoutTrailingSlash (Some ''https://x.test/v1/'')"
proof -
  let ?o1 = "(empty_options :: unit OpenRouterProviderSettings)
      \<lparr>baseURL := Some ''https://x.test/v1/'', baseUrl := Some ''https://legacy.test/''\<rparr>"
  let ?o2 = "(empty_options :: unit OpenRouterProviderSettings)
      \<lparr>baseUrl := Some ''https://legacy.test/''\<rparr>"
  let ?o3 = "empty_options :: unit OpenRouterProviderSettings"
  have a1: "baseURL ?o1 = Some ''https://x.test/v1/''"
    by simp
  have a2: "baseURL ?o2 = None \<and> baseUrl ?o2 = Some ''https://legacy.test/''"
    by (simp add: empty_options_def)
  have a3: "baseURL ?o3 = None \<and> baseUrl ?o3 = None"
    by (simp add: empty_options_def)
  have e1: "''https://x.test/v1/'' \<noteq> [] \<and> last ''https://x.test/v1/'' = CHR ''/''"
    by simp
  have e2: "''https://legacy.test/'' \<noteq> [] \<and> last ''https://legacy.test/'' = CHR ''/''"
    by simp
  have n1: "''https://x.test/v1'' = [] \<or> last ''https://x.test/v1'' \<noteq> CHR ''/''"
    by simp
  have "\<exists>r. withoutTrailingSlash (Some ''https://x.test/v1/'') = Some r \<and>
            ''https://x.test/v1/'' = r @ ''/''"
    by (rule baseURL_resolution
          [where u = "''https://x.test/v1/''",
           THEN conjunct2, THEN conjunct2, THEN conjunct2, THEN conjunct1, THEN mp, OF e1])
  then have s1: "withoutTrailingSlash (Some ''https://x.test/v1/'') = Some ''https://x.test/v1''"
    by auto
  have "\<exists>r. withoutTrailingSlash (Some ''https://legacy.test/'') = Some r \<and>
            ''https://legacy.test/'' = r @ ''/''"
    by (rule baseURL_resolution
          [where u = "''https://legacy.test/''",
           THEN conjunct2, THEN conjunct2, THEN conjunct2, THEN conjunct1, THEN mp, OF e2])
  then have s2: "withoutTrailingSlash (Some ''https://legacy.test/'') = Some ''https://legacy.test''"
    by auto
  have s3: "withoutTrailingSlash (Some ''https://x.test/v1'') = Some ''https://x.test/v1''"
    by (rule baseURL_resolution
          [where u = "''https://x.test/v1''",
           THEN conjunct2, THEN conjunct2, THEN conjunct2, THEN conjunct2, THEN conjunct1,
           THEN mp, OF n1])
  have "Some (baseURL_resolved ?o1) = withoutTrailingSlash (Some ''https://x.test/v1/'')"
    by (rule baseURL_resolution
          [where options = ?o1 and u = "''https://x.test/v1/''", THEN conjunct1, THEN mp, OF a1])
  then have r1: "baseURL_resolved ?o1 = ''https://x.test/v1''"
    unfolding s1 by simp
  have "Some (baseURL_resolved ?o2) = withoutTrailingSlash (Some ''https://legacy.test/'')"
    by (rule baseURL_resolution
          [where options = ?o2 and u = "''https://legacy.test/''",
           THEN conjunct2, THEN conjunct1, THEN mp, OF a2])
  then have r2: "baseURL_resolved ?o2 = ''https://legacy.test''"
    unfolding s2 by simp
  have r3: "baseURL_resolved ?o3 = ''https://openrouter.ai/api/v1''"
    by (rule baseURL_resolution
          [where options = ?o3,
           THEN conjunct2, THEN conjunct2, THEN conjunct1, THEN mp, OF a3, THEN conjunct1])
  have n2: "last ''https://x.test/v1'' \<noteq> CHR ''/''"
    by simp
  have r4: "withoutTrailingSlash (withoutTrailingSlash (Some ''https://x.test/v1/'')) =
       withoutTrailingSlash (Some ''https://x.test/v1/'')"
    by (rule baseURL_resolution
          [where u = "''https://x.test/v1/''" and r = "''https://x.test/v1''",
           THEN conjunct2, THEN conjunct2, THEN conjunct2, THEN conjunct2, THEN conjunct2,
           THEN conjunct1, THEN mp, OF conjI, OF s1 n1])
  from a1 r1 a2 [THEN conjunct1] a2 [THEN conjunct2] r2
       a3 [THEN conjunct1] a3 [THEN conjunct2] r3
       e1 [THEN conjunct1] e1 [THEN conjunct2] s1 n2 s3 r4
  show ?thesis
    by (intro conjI)
qed

text \<open>
  C5 as it is written does not hold: a base URL that ends in two slashes keeps one of them,
  and stripping it twice does not give what stripping it once gives.
\<close>

theorem second_slash_kept:
  "baseURL_resolved ((empty_options :: unit OpenRouterProviderSettings)
      \<lparr>baseURL := Some ''https://x.test/v1//''\<rparr>) = ''https://x.test/v1/''
   \<and> last (baseURL_resolved ((empty_options :: unit OpenRouterProviderSettings)
      \<lparr>baseURL := Some ''https://x.test/v1//''\<rparr>)) = CHR ''/''
   \<and> withoutTrailingSlash (withoutTrailingSlash (Some ''https://x.test/v1//'')) \<noteq>
       withoutTrailingSlash (Some ''https://x.test/v1//'')"
  by (simp add: baseURL_resolved_def withoutTrailingSlash_def)

text \<open>
  C9. The compatibility mode that every model of a provider receives is the mode of the
  settings when one is given and \<open>Compatible\<close> when none is given or when the factory is
  called without settings. Every model of the exported default instance receives
  \<open>Strict\<close>.
\<close>

theorem compatibility_resolution:
  "(\<exists>cfg. \<forall>mid st. chat (createOpenRouter how (Some options)) Call mid st =
        Inr (OpenRouterChatLanguageModel mid (case st of Some s \<Rightarrow> s | None \<Rightarrow> Map.empty) cfg)
      \<and> compatibility_cfg cfg = (case compatibility options of Some c \<Rightarrow> c | None \<Rightarrow> Compatible))
   \<and> (\<exists>cfg. \<forall>mid st. completion (createOpenRouter how (Some options)) Call mid st =
        Inr (OpenRouterCompletionLanguageModel mid (case st of Some s \<Rightarrow> s | None \<Rightarrow> Map.empty) cfg)
      \<and> compatibility_cfg cfg = (case compatibility options of Some c \<Rightarrow> c | None \<Rightarrow> Compatible))
   \<and> (\<forall>mid st. \<not> isl (call (createOpenRouter Call (Some options)) Call mid st) \<and>
        compatibility_cfg (model_config (projr (call (createOpenRouter Call (Some options)) Call mid st))) =
          (case compatibility options of Some c \<Rightarrow> c | None \<Rightarrow> Compatible))
   \<and> (\<exists>cfg. \<forall>mid st. chat (createOpenRouter how None) Call mid st =
        Inr (OpenRouterChatLanguageModel mid (case st of Some s \<Rightarrow> s | None \<Rightarrow> Map.empty) cfg)
      \<and> compatibility_cfg cfg = Compatible)
   \<and> (\<exists>cfg. \<forall>mid st. completion (createOpenRouter how None) Call mid st =
        Inr (OpenRouterCompletionLanguageModel mid (case st of Some s \<Rightarrow> s | None \<Rightarrow> Map.empty) cfg)
      \<and> compatibility_cfg cfg = Compatible)
   \<and> (\<exists>cfg. \<forall>mid st. chat openrouter Call mid st =
        Inr (OpenRouterChatLanguageModel mid (case st of Some s \<Rightarrow> s | None \<Rightarrow> Map.empty) cfg)
      \<and> compatibility_cfg cfg = Strict)
   \<and> (\<exists>cfg. \<forall>mid st. completion openrouter Call mid st =
        Inr (OpenRouterCompletionLanguageModel mid (case st of Some s \<Rightarrow> s | None \<Rightarrow> Map.empty) cfg)
      \<and> compatibility_cfg cfg = Strict)
   \<and> (\<forall>mid st. \<not> isl (call openrouter Call mid st) \<and>
        compatibility_cfg (model_config (projr (call openrouter Call mid st))) = Strict)
   \<and> (\<forall>mid st. \<not> isl (languageModel openrouter Call mid st) \<and>
        compatibility_cfg (model_config (projr (languageModel openrouter Call mid st))) = Strict)"
  by (simp add: openrouter_def provider_defs compatibility_resolved_def empty_options_def)

section \<open>Header computation\<close>

text \<open>
  C3, amended. The key is \<^verbatim>\<open>options.apiKey\<close> when that is given and otherwise the value of
  the environment variable; with a key the computation succeeds, and the Authorization header
  is \<^verbatim>\<open>Bearer\<close>, a blank and the key, provided that \<^verbatim>\<open>options.headers\<close> has no
  Authorization entry of its own. With neither a given key nor the variable, the computation
  fails with MissingCredentialError, whose description is \<^verbatim>\<open>OpenRouter\<close>.
\<close>

theorem authorization_from_resolved_key:
  "(apiKey options = Some k \<or> (apiKey options = None \<and> env ''OPENAI_API_KEY'' = Some k) \<longrightarrow>
      (\<exists>h. getHeaders options env = Inr h \<and>
           ((case headers options of None \<Rightarrow> None | Some extra \<Rightarrow> extra ''Authorization'') = None \<longrightarrow>
              h ''Authorization'' = Some (Str (''Bearer '' @ k)))))
   \<and> (apiKey options = None \<and> env ''OPENAI_API_KEY'' = None \<longrightarrow>
        getHeaders options env = Inl (MissingCredentialError ''OpenRouter''))"
  by (auto simp add: getHeaders_with_key getHeaders_from_environment getHeaders_without_key
        spread_keeps)

text \<open>
  The theorem at a given key, at a key in the environment, and at neither.
\<close>

theorem authorization_from_resolved_key_witness:
  "apiKey ((empty_options :: unit OpenRouterProviderSettings)\<lparr>apiKey := Some ''k1''\<rparr>) = Some ''k1''
   \<and> (case headers ((empty_options :: unit OpenRouterProviderSettings)\<lparr>apiKey := Some ''k1''\<rparr>) of
         None \<Rightarrow> None | Some extra \<Rightarrow> extra ''Authorization'') = None
   \<and> \<not> isl (getHeaders ((empty_options :: unit OpenRouterProviderSettings)\<lparr>apiKey := Some ''k1''\<rparr>) Map.empty)
   \<and> projr (getHeaders ((empty_options :: unit OpenRouterProviderSettings)\<lparr>apiKey := Some ''k1''\<rparr>) Map.empty)
        ''Authorization'' = Some (Str ''Bearer k1'')
   \<and> apiKey (empty_options :: unit OpenRouterProviderSettings) = None
   \<and> [''OPENAI_API_KEY'' \<mapsto> ''k2''] ''OPENAI_API_KEY'' = Some ''k2''
   \<and> \<not> isl (getHeaders (empty_options :: unit OpenRouterProviderSettings) [''OPENAI_API_KEY'' \<mapsto> ''k2''])
   \<and> projr (getHeaders (empty_options :: unit OpenRouterProviderSettings) [''OPENAI_API_KEY'' \<mapsto> ''k2''])
        ''Authorization'' = Some (Str ''Bearer k2'')
   \<and> (Map.empty :: environment) ''OPENAI_API_KEY'' = None
   \<and> getHeaders (empty_options :: unit OpenRouterProviderSettings) Map.empty =
        Inl (MissingCredentialError ''OpenRouter'')"
proof -
  let ?o1 = "(empty_options :: unit OpenRouterProviderSettings)\<lparr>apiKey := Some ''k1''\<rparr>"
  let ?o2 = "empty_options :: unit OpenRouterProviderSettings"
  have a1: "apiKey ?o1 = Some ''k1''" by simp
  have n1: "(case headers ?o1 of None \<Rightarrow> None | Some extra \<Rightarrow> extra ''Authorization'') = None"
    by (simp add: empty_options_def)
  have a2: "apiKey ?o2 = None" by (simp add: empty_options_def)
  have n2: "(case headers ?o2 of None \<Rightarrow> None | Some extra \<Rightarrow> extra ''Authorization'') = None"
    by (simp add: empty_options_def)
  have e2: "[''OPENAI_API_KEY'' \<mapsto> ''k2''] ''OPENAI_API_KEY'' = Some ''k2''" by simp
  have e3: "(Map.empty :: environment) ''OPENAI_API_KEY'' = None" by simp
  from authorization_from_resolved_key [of ?o1 "''k1''" Map.empty] a1 n1
  have r1: "\<not> isl (getHeaders ?o1 Map.empty) \<and>
            projr (getHeaders ?o1 Map.empty) ''Authorization'' = Some (Str ''Bearer k1'')"
    by auto
  from authorization_from_resolved_key [of ?o2 "''k2''" "[''OPENAI_API_KEY'' \<mapsto> ''k2'']"] a2 n2 e2
  have r2: "\<not> isl (getHeaders ?o2 [''OPENAI_API_KEY'' \<mapsto> ''k2'']) \<and>
            projr (getHeaders ?o2 [''OPENAI_API_KEY'' \<mapsto> ''k2'']) ''Authorization'' = Some (Str ''Bearer k2'')"
    by auto
  from authorization_from_resolved_key [of ?o2 "''k2''" Map.empty] a2 e3
  have r3: "getHeaders ?o2 Map.empty = Inl (MissingCredentialError ''OpenRouter'')"
    by blast
  from a1 n1 a2 e2 e3 r1 r2 r3 show ?thesis by blast
qed

text \<open>
  C3 as it is written does not hold: with the key \<^verbatim>\<open>k1\<close> given and an Authorization
  entry among \<^verbatim>\<open>options.headers\<close>, the Authorization header is that entry, not
  \<^verbatim>\<open>Bearer k1\<close>.
\<close>

theorem authorization_overridden:
  "\<not> isl (getHeaders ((empty_options :: unit OpenRouterProviderSettings)
        \<lparr>apiKey := Some ''k1'', headers := Some [''Authorization'' \<mapsto> ''custom'']\<rparr>) Map.empty)
   \<and> projr (getHeaders ((empty_options :: unit OpenRouterProviderSettings)
        \<lparr>apiKey := Some ''k1'', headers := Some [''Authorization'' \<mapsto> ''custom'']\<rparr>) Map.empty)
        ''Authorization'' = Some (Str ''custom'')
   \<and> projr (getHeaders ((empty_options :: unit OpenRouterProviderSettings)
        \<lparr>apiKey := Some ''k1'', headers := Some [''Authorization'' \<mapsto> ''custom'']\<rparr>) Map.empty)
        ''Authorization'' \<noteq> Some (Str ''Bearer k1'')"
  by (simp add: getHeaders_def loadApiKey_def spread_def empty_options_def)

text \<open>
  C4, amended. With the key \<^verbatim>\<open>k1\<close>, the organization \<^verbatim>\<open>org1\<close>, no project and no
  extra headers, the header object is exactly: Authorization \<^verbatim>\<open>Bearer k1\<close>, the
  organization header \<^verbatim>\<open>org1\<close>, and the project header with the value \<^verbatim>\<open>undefined\<close>. The
  project key is a key of the object; it has no string value. The same object is what the
  header function of a Chat model of such a provider returns.
\<close>

theorem scenario_headers:
  "getHeaders (options\<lparr>apiKey := Some ''k1'', organization := Some ''org1'',
                       project := None, headers := None\<rparr>) env =
     Inr [''Authorization'' \<mapsto> Str ''Bearer k1'',
          ''OpenRouter-Organization'' \<mapsto> Str ''org1'',
          ''OpenRouter-Project'' \<mapsto> Undefined]
   \<and> \<not> isl (chat (createOpenRouter Call
          (Some (options\<lparr>apiKey := Some ''k1'', organization := Some ''org1'',
                          project := None, headers := None\<rparr>))) Call ''m'' st)
   \<and> headers_fn (model_config (projr (chat (createOpenRouter Call
          (Some (options\<lparr>apiKey := Some ''k1'', organization := Some ''org1'',
                          project := None, headers := None\<rparr>))) Call ''m'' st))) env =
     Inr [''Authorization'' \<mapsto> Str ''Bearer k1'',
          ''OpenRouter-Organization'' \<mapsto> Str ''org1'',
          ''OpenRouter-Project'' \<mapsto> Undefined]
   \<and> dom [''Authorization'' \<mapsto> Str ''Bearer k1'',
          ''OpenRouter-Organization'' \<mapsto> Str ''org1'',
          ''OpenRouter-Project'' \<mapsto> Undefined] =
       {''Authorization'', ''OpenRouter-Organization'', ''OpenRouter-Project''}"
  by (auto simp add: provider_defs getHeaders_def loadApiKey_def spread_def property_value_def)

text \<open>
  C4 as it is written does not hold: in the scenario the project key is in the domain of
  the header object.
\<close>

theorem project_key_present:
  "\<not> isl (getHeaders ((empty_options :: unit OpenRouterProviderSettings)
        \<lparr>apiKey := Some ''k1'', organization := Some ''org1''\<rparr>) Map.empty)
   \<and> ''OpenRouter-Project'' \<in> dom (projr (getHeaders ((empty_options :: unit OpenRouterProviderSettings)
        \<lparr>apiKey := Some ''k1'', organization := Some ''org1''\<rparr>) Map.empty))"
  by (simp add: getHeaders_def loadApiKey_def spread_def empty_options_def)

text \<open>
  C7. Whenever the header computation succeeds, every entry of \<^verbatim>\<open>options.headers\<close> is in
  the result with its own value, also under a name that was written earlier in the object
  literal, such as Authorization.
\<close>

theorem extraHeaders_take_precedence:
  "headers options = Some extra \<Longrightarrow> extra k = Some v \<Longrightarrow> getHeaders options env = Inr h \<Longrightarrow>
   h k = Some (Str v)"
  by (auto simp add: getHeaders_def spread_overrides split: sum.splits)

text \<open>
  The theorem at a given key and an Authorization entry among the extra headers.
\<close>

theorem extraHeaders_take_precedence_witness:
  "headers ((empty_options :: unit OpenRouterProviderSettings)
        \<lparr>apiKey := Some ''k1'', headers := Some [''Authorization'' \<mapsto> ''custom'']\<rparr>) =
     Some [''Authorization'' \<mapsto> ''custom'']
   \<and> [''Authorization'' \<mapsto> ''custom''] ''Authorization'' = Some ''custom''
   \<and> getHeaders ((empty_options :: unit OpenRouterProviderSettings)
        \<lparr>apiKey := Some ''k1'', headers := Some [''Authorization'' \<mapsto> ''custom'']\<rparr>) Map.empty =
       Inr [''Authorization'' \<mapsto> Str ''custom'',
            ''OpenRouter-Organization'' \<mapsto> Undefined,
            ''OpenRouter-Project'' \<mapsto> Undefined]
   \<and> [''Authorization'' \<mapsto> Str ''custom'',
       ''OpenRouter-Organization'' \<mapsto> Undefined,
       ''OpenRouter-Project'' \<mapsto> Undefined] ''Authorization'' = Some (Str ''custom'')"
proof -
  let ?o = "(empty_options :: unit OpenRouterProviderSettings)
        \<lparr>apiKey := Some ''k1'', headers := Some [''Authorization'' \<mapsto> ''custom'']\<rparr>"
  let ?h = "[''Authorization'' \<mapsto> Str ''custom'',
            ''OpenRouter-Organization'' \<mapsto> Undefined,
            ''OpenRouter-Project'' \<mapsto> Undefined]"
  have a: "headers ?o = Some [''Authorization'' \<mapsto> ''custom'']" by simp
  have b: "[''Authorization'' \<mapsto> ''custom''] ''Authorization'' = Some ''custom''" by simp
  have c: "getHeaders ?o Map.empty = Inr ?h"
    by (simp add: getHeaders_def loadApiKey_def spread_def empty_options_def property_value_def
          map_add_def fun_eq_iff)
  from extraHeaders_take_precedence [OF a b c] a b c show ?thesis by simp
qed

text \<open>
  C10. With no \<^verbatim>\<open>options.apiKey\<close>, the header computation depends on the environment
  through the variable \<^verbatim>\<open>OPENAI_API_KEY\<close> alone: without it the computation fails, and
  the description in the error is \<^verbatim>\<open>OpenRouter\<close>; with it the key is its value; and two
  environments that agree on it give the same result.
\<close>

theorem key_read_from_OPENAI_API_KEY:
  assumes "apiKey options = None"
  shows "(env ''OPENAI_API_KEY'' = None \<longrightarrow>
            getHeaders options env = Inl (MissingCredentialError ''OpenRouter''))
       \<and> (env ''OPENAI_API_KEY'' = Some k \<longrightarrow>
            getHeaders options env =
              Inr (spread (headers options)
                     [''Authorization'' \<mapsto> Str (''Bearer '' @ k),
                      ''OpenRouter-Organization'' \<mapsto> property_value (organization options),
                      ''OpenRouter-Project'' \<mapsto> property_value (project options)]))
       \<and> (env ''OPENAI_API_KEY'' = env' ''OPENAI_API_KEY'' \<longrightarrow>
            getHeaders options env = getHeaders options env')"
  using assms by (simp add: getHeaders_def loadApiKey_def)

text \<open>
  The theorem at an environment that sets only \<^verbatim>\<open>OPENROUTER_API_KEY\<close>, at one that sets
  \<^verbatim>\<open>OPENAI_API_KEY\<close>, and at two that agree on \<^verbatim>\<open>OPENAI_API_KEY\<close>.
\<close>

theorem key_read_from_OPENAI_API_KEY_witness:
  "apiKey (empty_options :: unit OpenRouterProviderSettings) = None
   \<and> [''OPENROUTER_API_KEY'' \<mapsto> ''k3''] ''OPENAI_API_KEY'' = None
   \<and> getHeaders (empty_options :: unit OpenRouterProviderSettings) [''OPENROUTER_API_KEY'' \<mapsto> ''k3''] =
       Inl (MissingCredentialError ''OpenRouter'')
   \<and> [''OPENAI_API_KEY'' \<mapsto> ''k2''] ''OPENAI_API_KEY'' = Some ''k2''
   \<and> getHeaders (empty_options :: unit OpenRouterProviderSettings) [''OPENAI_API_KEY'' \<mapsto> ''k2''] =
       Inr [''Authorization'' \<mapsto> Str ''Bearer k2'',
            ''OpenRouter-Organization'' \<mapsto> Undefined,
            ''OpenRouter-Project'' \<mapsto> Undefined]
   \<and> [''OPENAI_API_KEY'' \<mapsto> ''k2''] ''OPENAI_API_KEY'' =
       [''OPENAI_API_KEY'' \<mapsto> ''k2'', ''HOME'' \<mapsto> ''/root''] ''OPENAI_API_KEY''
   \<and> getHeaders (empty_options :: unit OpenRouterProviderSettings) [''OPENAI_API_KEY'' \<mapsto> ''k2''] =
       getHeaders (empty_options :: unit OpenRouterProviderSettings)
         [''OPENAI_API_KEY'' \<mapsto> ''k2'', ''HOME'' \<mapsto> ''/root'']"
proof -
  let ?o = "empty_options :: unit OpenRouterProviderSettings"
  have a: "apiKey ?o = None" by (simp add: empty_options_def)
  have e1: "[''OPENROUTER_API_KEY'' \<mapsto> ''k3''] ''OPENAI_API_KEY'' = None" by simp
  have e2: "[''OPENAI_API_KEY'' \<mapsto> ''k2''] ''OPENAI_API_KEY'' = Some ''k2''" by simp
  have e3: "[''OPENAI_API_KEY'' \<mapsto> ''k2''] ''OPENAI_API_KEY'' =
       [''OPENAI_API_KEY'' \<mapsto> ''k2'', ''HOME'' \<mapsto> ''/root''] ''OPENAI_API_KEY''" by simp
  from key_read_from_OPENAI_API_KEY [OF a, of "[''OPENROUTER_API_KEY'' \<mapsto> ''k3'']"] e1
  have r1: "getHeaders ?o [''OPENROUTER_API_KEY'' \<mapsto> ''k3''] = Inl (MissingCredentialError ''OpenRouter'')"
    by blast
  from key_read_from_OPENAI_API_KEY [OF a, of "[''OPENAI_API_KEY'' \<mapsto> ''k2'']" "''k2''"] e2
  have r2: "getHeaders ?o [''OPENAI_API_KEY'' \<mapsto> ''k2''] =
       Inr [''Authorization'' \<mapsto> Str ''Bearer k2'',
            ''OpenRouter-Organization'' \<mapsto> Undefined,
            ''OpenRouter-Project'' \<mapsto> Undefined]"
    by (simp add: spread_def property_value_def empty_options_def)
  from key_read_from_OPENAI_API_KEY [OF a, of "[''OPENAI_API_KEY'' \<mapsto> ''k2'']" _
         "[''OPENAI_API_KEY'' \<mapsto> ''k2'', ''HOME'' \<mapsto> ''/root'']"] e3
  have r3: "getHeaders ?o [''OPENAI_API_KEY'' \<mapsto> ''k2''] =
       getHeaders ?o [''OPENAI_API_KEY'' \<mapsto> ''k2'', ''HOME'' \<mapsto> ''/root'']"
    by blast
  from a e1 e2 e3 r1 r2 r3 show ?thesis by blast
qed

end
